theory Spec2Isabelle
  imports Main "HOL-Library.Word"
begin

section \<open>DMS-Toolbox: the main frame's store handling\<close>

text \<open>
  The development embeds the store-related member functions of
  \<^verbatim>\<open>DMSToolbox::Gui::MainFrame\<close> (gui/mainframe.cc):
  \<^verbatim>\<open>readCartridgeFile\<close>, \<^verbatim>\<open>createDevices\<close>, \<^verbatim>\<open>writeDevice\<close> and
  \<^verbatim>\<open>updateProgress\<close>. The classes they call (\<^verbatim>\<open>Mk1Cartridge\<close>,
  \<^verbatim>\<open>Dx10Cartridge\<close>, \<^verbatim>\<open>Dx10Device\<close>, \<^verbatim>\<open>InstrumentStore\<close>, \<^verbatim>\<open>SysEx\<close>,
  the wxWidgets and RtMidi libraries) are not part of the sources at hand; they enter
  the model as parameters or as plain data.
\<close>

subsection \<open>Exceptions\<close>

text \<open>
  The exception classes of \<^verbatim>\<open>exceptions.hh\<close> that the main frame throws, each with
  its message. \<open>ForeignException\<close> stands for anything that is not derived from
  \<^verbatim>\<open>DMSToolbox::Exception\<close> (an \<^verbatim>\<open>RtMidiError\<close>, a \<^verbatim>\<open>std::bad_alloc\<close>).
\<close>

datatype exn =
    SystemException string
  | DataFormatException string
  | ConfigurationException string
  | ForeignException string

text \<open>\<^verbatim>\<open>catch (DataFormatException&)\<close> and \<^verbatim>\<open>catch (Exception&)\<close> as predicates.\<close>

fun isDataFormat :: "exn \<Rightarrow> bool" where
  "isDataFormat (DataFormatException m) = True"
| "isDataFormat e = False"

fun isException :: "exn \<Rightarrow> bool" where
  "isException (ForeignException m) = False"
| "isException e = True"

subsection \<open>Instrument stores\<close>

type_synonym block = "8 word list"

text \<open>
  An ICB as the main frame reads it: \<^verbatim>\<open>getName()\<close>, \<^verbatim>\<open>getAmplBlock()\<close>,
  \<^verbatim>\<open>getFreqBlock()\<close> and \<^verbatim>\<open>getWaveBlock()\<close>.
\<close>

record Icb =
  getName :: string
  getAmplBlock :: "8 word"
  getFreqBlock :: "8 word"
  getWaveBlock :: "8 word"

text \<open>
  Modelled from the spec: the class \<^verbatim>\<open>InstrumentStore\<close> (wersi/instrumentstore.hh is
  not among the sources). A store is an ordered, iterable mapping from slot index to ICB
  and owns its blocks; \<^verbatim>\<open>getVcf\<close>, \<^verbatim>\<open>getAmpl\<close>, \<^verbatim>\<open>getFreq\<close> and \<^verbatim>\<open>getWave\<close>
  return the block at an address, or null when it is unset. \<open>icbs\<close> is the sequence
  that \<^verbatim>\<open>for (auto& i : *store)\<close> visits, \<^verbatim>\<open>i.first\<close> being the slot (a byte, as
  \<^verbatim>\<open>writeDevice\<close> assigns it to a \<^verbatim>\<open>uint8_t\<close>) and \<^verbatim>\<open>i.second\<close> the ICB.
\<close>

record InstrumentStore =
  icbs :: "(8 word \<times> Icb) list"
  vcf_blocks :: "(8 word \<times> block) list"
  ampl_blocks :: "(8 word \<times> block) list"
  freq_blocks :: "(8 word \<times> block) list"
  wave_blocks :: "(8 word \<times> block) list"

definition getVcf :: "InstrumentStore \<Rightarrow> 8 word \<Rightarrow> block option" where
  "getVcf st addr = map_of (vcf_blocks st) addr"

definition getAmpl :: "InstrumentStore \<Rightarrow> 8 word \<Rightarrow> block option" where
  "getAmpl st addr = map_of (ampl_blocks st) addr"

definition getFreq :: "InstrumentStore \<Rightarrow> 8 word \<Rightarrow> block option" where
  "getFreq st addr = map_of (freq_blocks st) addr"

definition getWave :: "InstrumentStore \<Rightarrow> 8 word \<Rightarrow> block option" where
  "getWave st addr = map_of (wave_blocks st) addr"

text \<open>
  A MIDI port object of RtMidi: the port it has open, if any, as the pair of the
  port index and the client-side port name given to \<^verbatim>\<open>openPort\<close>.
\<close>

record midi_port =
  opened :: "(nat \<times> string) option"

text \<open>
  \<^verbatim>\<open>struct InstStore\<close> of the main frame: the store and its MIDI ports (null
  pointers are \<open>None\<close>), the MIDI channel and the device type. Type 0 is a cartridge.
\<close>

record InstStore =
  m_store :: "InstrumentStore option"
  m_midiIn :: "midi_port option"
  m_midiOut :: "midi_port option"
  m_channel :: "8 word"
  m_type :: "8 word"

subsection \<open>The progress callback\<close>

text \<open>
  \<^verbatim>\<open>MainFrame::updateProgress(void* object, uint32_t current, uint32_t max)\<close>. Pointers
  are addresses, 0 being \<^verbatim>\<open>nullptr\<close>; the heap maps the addresses of live progress
  dialogs to them. Dereferencing the null pointer, or an address where no dialog lives,
  is a fault. \<open>Update\<close> is \<^verbatim>\<open>wxProgressDialog::Update\<close>, which answers whether to
  continue.
\<close>

datatype fault = NullDereference | WildPointer

definition deref :: "(nat \<rightharpoonup> 'dlg) \<Rightarrow> nat \<Rightarrow> fault + 'dlg" where
  "deref heap p =
     (if p = 0 then Inl NullDereference
      else case heap p of None \<Rightarrow> Inl WildPointer | Some d \<Rightarrow> Inr d)"

definition updateProgress ::
  "('dlg \<Rightarrow> 32 word \<Rightarrow> bool) \<Rightarrow> (nat \<rightharpoonup> 'dlg) \<Rightarrow> nat \<Rightarrow> 32 word \<Rightarrow> 32 word \<Rightarrow> fault + bool"
where
  "updateProgress Update heap object current maxv =
     (let progDlg = object in
      if progDlg \<noteq> 0 then
        (case deref heap progDlg of
           Inl f \<Rightarrow> Inl f
         | Inr d \<Rightarrow> Inr (Update d current))
      else Inr False)"

subsection \<open>Writing a store to a device\<close>

text \<open>
  The calls \<^verbatim>\<open>SysEx::sendIcb\<close>, \<^verbatim>\<open>sendVcf\<close>, \<^verbatim>\<open>sendAmpl\<close>, \<^verbatim>\<open>sendFreq\<close> and
  \<^verbatim>\<open>sendWave\<close> on the store's MIDI output, with the device type, the address and the
  block they are given. Each call is one message on the wire.
\<close>

datatype message =
    SendIcb "8 word" "8 word" Icb
  | SendVcf "8 word" "8 word" block
  | SendAmpl "8 word" "8 word" block
  | SendFreq "8 word" "8 word" block
  | SendWave "8 word" "8 word" block

text \<open>
  The first loop of \<^verbatim>\<open>writeDevice\<close>: every ICB is sent, and \<^verbatim>\<open>offset\<close> is assigned
  \<^verbatim>\<open>i.first - 1\<close> (narrowed to a byte) whenever it is still 0. The state is the
  offset and the messages sent so far.
\<close>

fun send_icbs ::
  "8 word \<Rightarrow> (8 word \<times> Icb) list \<Rightarrow> 8 word \<times> message list \<Rightarrow> 8 word \<times> message list"
where
  "send_icbs ty [] (offset, out) = (offset, out)"
| "send_icbs ty (i # rest) (offset, out) =
     send_icbs ty rest
       (if offset = 0 then fst i - 1 else offset, out @ [SendIcb ty (fst i) (snd i)])"

text \<open>\<^verbatim>\<open>for (size_t i = 0; i < 10; ++i)\<close>: the filter blocks.\<close>

function vcf_loop ::
  "InstrumentStore \<Rightarrow> 8 word \<Rightarrow> 8 word \<Rightarrow> nat \<Rightarrow> message list \<Rightarrow> message list"
where
  "vcf_loop st ty offset i out =
     (if i < 10 then
        (let addr = of_nat i + offset in
         case getVcf st addr of
           Some vcf \<Rightarrow> vcf_loop st ty offset (i + 1) (out @ [SendVcf ty addr vcf])
         | None \<Rightarrow> vcf_loop st ty offset (i + 1) out)
      else out)"
  by pat_completeness auto
termination
  by (relation "measure (\<lambda>(st, ty, offset, i, out). 10 - i)") auto

text \<open>
  \<^verbatim>\<open>for (size_t i = 0; i < 20; ++i)\<close>: the amplitude, frequency and waveform blocks.
  The address is \<^verbatim>\<open>i + offset\<close> as a byte, incremented once more when \<^verbatim>\<open>i >= 10\<close>.
\<close>

function ampl_loop ::
  "InstrumentStore \<Rightarrow> 8 word \<Rightarrow> 8 word \<Rightarrow> nat \<Rightarrow> message list \<Rightarrow> message list"
where
  "ampl_loop st ty offset i out =
     (if i < 20 then
        (let addr = of_nat i + offset;
             addr = (if i \<ge> 10 then addr + 1 else addr) in
         case getAmpl st addr of
           Some ampl \<Rightarrow> ampl_loop st ty offset (i + 1) (out @ [SendAmpl ty addr ampl])
         | None \<Rightarrow> ampl_loop st ty offset (i + 1) out)
      else out)"
  by pat_completeness auto
termination
  by (relation "measure (\<lambda>(st, ty, offset, i, out). 20 - i)") auto

function freq_loop ::
  "InstrumentStore \<Rightarrow> 8 word \<Rightarrow> 8 word \<Rightarrow> nat \<Rightarrow> message list \<Rightarrow> message list"
where
  "freq_loop st ty offset i out =
     (if i < 20 then
        (let addr = of_nat i + offset;
             addr = (if i \<ge> 10 then addr + 1 else addr) in
         case getFreq st addr of
           Some freq \<Rightarrow> freq_loop st ty offset (i + 1) (out @ [SendFreq ty addr freq])
         | None \<Rightarrow> freq_loop st ty offset (i + 1) out)
      else out)"
  by pat_completeness auto
termination
  by (relation "measure (\<lambda>(st, ty, offset, i, out). 20 - i)") auto

function wave_loop ::
  "InstrumentStore \<Rightarrow> 8 word \<Rightarrow> 8 word \<Rightarrow> nat \<Rightarrow> message list \<Rightarrow> message list"
where
  "wave_loop st ty offset i out =
     (if i < 20 then
        (let addr = of_nat i + offset;
             addr = (if i \<ge> 10 then addr + 1 else addr) in
         case getWave st addr of
           Some wave \<Rightarrow> wave_loop st ty offset (i + 1) (out @ [SendWave ty addr wave])
         | None \<Rightarrow> wave_loop st ty offset (i + 1) out)
      else out)"
  by pat_completeness auto
termination
  by (relation "measure (\<lambda>(st, ty, offset, i, out). 20 - i)") auto

declare vcf_loop.simps [simp del] ampl_loop.simps [simp del]
  freq_loop.simps [simp del] wave_loop.simps [simp del]

text \<open>
  \<^verbatim>\<open>MainFrame::writeDevice(const InstStore& store)\<close>, in the build with RtMidi. The
  result is the sequence of messages sent; \<open>None\<close> is the dereference of a null
  \<^verbatim>\<open>store.m_store\<close>.
\<close>

definition writeDevice :: "InstStore \<Rightarrow> message list option" where
  "writeDevice store =
     (case m_store store of
        None \<Rightarrow> None
      | Some st \<Rightarrow>
          (let (offset, out) = send_icbs (m_type store) (icbs st) (0, []);
               out = vcf_loop st (m_type store) offset 0 out;
               out = ampl_loop st (m_type store) offset 0 out;
               out = freq_loop st (m_type store) offset 0 out;
               out = wave_loop st (m_type store) offset 0 out
           in Some out))"

subsection \<open>The main frame's state\<close>

text \<open>
  The instrument tree \<^verbatim>\<open>m_instTree\<close> as the list of the items appended to it. An
  item has its parent, its label and the \<^verbatim>\<open>InstrumentHelper(store, icb)\<close> attached to
  it; the identifier of an item is its position in the list.
\<close>

datatype tree_id = Root | Devices | Cartridges | Item nat

record tree_item =
  parent :: tree_id
  label :: string
  helper_store :: InstStore
  helper_icb :: "8 word"

datatype layout = Mk1 | Dx10

text \<open>
  The state the member functions work on: the tree, the collection
  \<^verbatim>\<open>m_instrumentStores\<close> (a \<^verbatim>\<open>std::map\<close> from names to \<^verbatim>\<open>InstStore\<close>, kept here in
  insertion order), and the error dialogs shown so far. Three fields account for what
  the code allocates and calls: \<open>buffers\<close> and \<open>stores\<close> count the byte buffers
  (\<^verbatim>\<open>new[]\<close>) and the store objects (\<^verbatim>\<open>new\<close>) that are live, and \<open>constructed\<close>
  lists the cartridge constructors invoked, in order.
\<close>

record world =
  m_instTree :: "tree_item list"
  m_instrumentStores :: "(string \<times> InstStore) list"
  shown :: "string list"
  buffers :: nat
  stores :: nat
  constructed :: "layout list"

text \<open>\<^verbatim>\<open>m_instTree->AppendItem(parent, label, -1, -1, new InstrumentHelper(is, icb))\<close>.\<close>

definition AppendItem ::
  "tree_id \<Rightarrow> string \<Rightarrow> InstStore \<times> 8 word \<Rightarrow> world \<Rightarrow> tree_id \<times> world"
where
  "AppendItem p lbl helper w =
     (Item (length (m_instTree w)),
      w\<lparr>m_instTree := m_instTree w @
           [\<lparr>parent = p, label = lbl, helper_store = fst helper, helper_icb = snd helper\<rparr>]\<rparr>)"

text \<open>
  \<^verbatim>\<open>m_instrumentStores.insert(std::pair<wxString, InstStore>(name, is))\<close>: the insertion
  into a \<^verbatim>\<open>std::map\<close> leaves the map as it is when the key is present.
\<close>

definition insert_store :: "string \<times> InstStore \<Rightarrow> world \<Rightarrow> world" where
  "insert_store entry w =
     (case map_of (m_instrumentStores w) (fst entry) of
        None \<Rightarrow> w\<lparr>m_instrumentStores := m_instrumentStores w @ [entry]\<rparr>
      | Some existing \<Rightarrow> w)"

text \<open>The decimal digits of a number, as \<^verbatim>\<open>operator<<\<close> of \<^verbatim>\<open>wxString\<close> writes them.\<close>

function decimal :: "nat \<Rightarrow> string" where
  "decimal n =
     (if n < 10 then [''0123456789'' ! n]
      else decimal (n div 10) @ [''0123456789'' ! (n mod 10)])"
  by pat_completeness auto
termination
  by (relation "measure id") auto

declare decimal.simps [simp del]

text \<open>
  The label of an instrument: \<^verbatim>\<open>"(" << uint16_t(i.first) << ") "\<close> followed by the
  ICB's name, which \<^verbatim>\<open>From8BitData(name.c_str())\<close> reads up to its first NUL.
\<close>

definition instName :: "8 word \<times> Icb \<Rightarrow> string" where
  "instName i =
     ''('' @ decimal (unat (fst i)) @ '') '' @ takeWhile (\<lambda>c. c \<noteq> CHR 0x00) (getName (snd i))"

text \<open>
  \<^verbatim>\<open>for (auto& i : *store) { ... AppendItem(id, instName, -1, -1, new InstrumentHelper(is,
  i.first)); }\<close>
\<close>

definition add_instruments ::
  "tree_id \<Rightarrow> InstStore \<Rightarrow> (8 word \<times> Icb) list \<Rightarrow> world \<Rightarrow> world"
where
  "add_instruments ident is xs w =
     fold (\<lambda>i w. snd (AppendItem ident (instName i) (is, fst i) w)) xs w"

subsection \<open>Reading a cartridge file\<close>

text \<open>
  What \<^verbatim>\<open>readCartridgeFile\<close> sees of the file at \<^verbatim>\<open>filePath\<close>: whether it exists
  (\<^verbatim>\<open>wxFile::Exists\<close>), its length (\<^verbatim>\<open>file.Length()\<close>, a signed offset), whether the
  input stream is usable (\<^verbatim>\<open>fileStream.IsOk()\<close>), and the bytes that
  \<^verbatim>\<open>fileStream.Read(buffer, size)\<close> delivers, \<^verbatim>\<open>LastRead()\<close> being their number.
\<close>

record cart_file =
  f_exists :: bool
  f_length :: int
  f_stream_ok :: bool
  f_read :: "8 word list"

text \<open>
  \<^verbatim>\<open>new Mk1Cartridge(buffer)\<close> and \<^verbatim>\<open>new Dx10Cartridge(buffer, size)\<close>. The
  constructors are parameters: each either validates the buffer and yields the store, or
  throws. A constructor that throws leaves no object behind.
\<close>

definition new_Mk1Cartridge ::
  "(8 word list \<Rightarrow> exn + InstrumentStore) \<Rightarrow> 8 word list \<Rightarrow> world
     \<Rightarrow> (exn + InstrumentStore) \<times> world"
where
  "new_Mk1Cartridge ctor buffer w =
     (let w = w\<lparr>constructed := constructed w @ [Mk1]\<rparr> in
      case ctor buffer of
        Inl e \<Rightarrow> (Inl e, w)
      | Inr s \<Rightarrow> (Inr s, w\<lparr>stores := stores w + 1\<rparr>))"

definition new_Dx10Cartridge ::
  "(8 word list \<Rightarrow> nat \<Rightarrow> exn + InstrumentStore) \<Rightarrow> 8 word list \<Rightarrow> nat \<Rightarrow> world
     \<Rightarrow> (exn + InstrumentStore) \<times> world"
where
  "new_Dx10Cartridge ctor buffer sz w =
     (let w = w\<lparr>constructed := constructed w @ [Dx10]\<rparr> in
      case ctor buffer sz of
        Inl e \<Rightarrow> (Inl e, w)
      | Inr s \<Rightarrow> (Inr s, w\<lparr>stores := stores w + 1\<rparr>))"

text \<open>
  \<^verbatim>\<open>if (store == nullptr) { try { store = new Mk1Cartridge(buffer); }
  catch (DataFormatException&) { } }\<close>, and the same for \<^verbatim>\<open>Dx10Cartridge\<close>. The
  result is the value of \<^verbatim>\<open>store\<close> afterwards, or the exception that is not caught.
\<close>

definition try_Mk1 ::
  "(8 word list \<Rightarrow> exn + InstrumentStore) \<Rightarrow> 8 word list \<Rightarrow> InstrumentStore option \<Rightarrow> world
     \<Rightarrow> (exn + InstrumentStore option) \<times> world"
where
  "try_Mk1 ctor buffer store w =
     (if store = None then
        (case new_Mk1Cartridge ctor buffer w of
           (Inr s, w') \<Rightarrow> (Inr (Some s), w')
         | (Inl e, w') \<Rightarrow> if isDataFormat e then (Inr store, w') else (Inl e, w'))
      else (Inr store, w))"

definition try_Dx10 ::
  "(8 word list \<Rightarrow> nat \<Rightarrow> exn + InstrumentStore) \<Rightarrow> 8 word list \<Rightarrow> nat
     \<Rightarrow> InstrumentStore option \<Rightarrow> world \<Rightarrow> (exn + InstrumentStore option) \<times> world"
where
  "try_Dx10 ctor buffer sz store w =
     (if store = None then
        (case new_Dx10Cartridge ctor buffer sz w of
           (Inr s, w') \<Rightarrow> (Inr (Some s), w')
         | (Inl e, w') \<Rightarrow> if isDataFormat e then (Inr store, w') else (Inl e, w'))
      else (Inr store, w))"

text \<open>
  The end of the \<^verbatim>\<open>try\<close> block: the \<^verbatim>\<open>InstStore\<close> of a cartridge (no MIDI
  ports, channel 0, type 0), its node under \<^verbatim>\<open>m_cartridges\<close>, one child per ICB,
  and the entry in \<^verbatim>\<open>m_instrumentStores\<close>. These statements can throw as well
  (\<^verbatim>\<open>new InstrumentHelper\<close>, the string operations, the tree and the map allocate).
  They are numbered: statement 0 appends the cartridge's node, the statements 1 to \<open>n\<close>
  append the children of the \<open>n\<close> ICBs, statement \<open>n + 1\<close> inserts into the
  collection; \<open>throws k\<close> is the exception that statement \<open>k\<close> throws, if any. A
  statement that throws has no effect of its own; what the earlier statements did stays.
\<close>

fun add_instruments_throwing ::
  "(nat \<Rightarrow> exn option) \<Rightarrow> nat \<Rightarrow> tree_id \<Rightarrow> InstStore \<Rightarrow> (8 word \<times> Icb) list \<Rightarrow> world
     \<Rightarrow> (exn + unit) \<times> world"
where
  "add_instruments_throwing throws k ident is [] w = (Inr (), w)"
| "add_instruments_throwing throws k ident is (i # rest) w =
     (case throws k of
        Some e \<Rightarrow> (Inl e, w)
      | None \<Rightarrow>
          add_instruments_throwing throws (k + 1) ident is rest
            (snd (AppendItem ident (instName i) (is, fst i) w)))"

definition register_cartridge ::
  "(nat \<Rightarrow> exn option) \<Rightarrow> string \<Rightarrow> InstrumentStore \<Rightarrow> world \<Rightarrow> (exn + unit) \<times> world"
where
  "register_cartridge throws cartName store w =
     (let is = \<lparr>m_store = Some store, m_midiIn = None, m_midiOut = None,
                m_channel = 0, m_type = 0\<rparr>
      in case throws 0 of
           Some e \<Rightarrow> (Inl e, w)
         | None \<Rightarrow>
             (let (ident, w) = AppendItem Cartridges cartName (is, 0) w
              in case add_instruments_throwing throws 1 ident is (icbs store) w of
                   (Inl e, w) \<Rightarrow> (Inl e, w)
                 | (Inr u, w) \<Rightarrow>
                     (case throws (length (icbs store) + 1) of
                        Some e \<Rightarrow> (Inl e, w)
                      | None \<Rightarrow> (Inr (), insert_store (cartName, is) w))))"

text \<open>
  The \<^verbatim>\<open>try\<close> block of \<^verbatim>\<open>readCartridgeFile\<close>. An exception leaves it together with
  the value that the local \<^verbatim>\<open>store\<close> has at that moment, which the handler inspects.
\<close>

definition readCartridgeFile_try ::
  "(8 word list \<Rightarrow> exn + InstrumentStore) \<Rightarrow> (8 word list \<Rightarrow> nat \<Rightarrow> exn + InstrumentStore)
     \<Rightarrow> (nat \<Rightarrow> exn option) \<Rightarrow> cart_file \<Rightarrow> nat \<Rightarrow> string \<Rightarrow> world
     \<Rightarrow> (exn \<times> InstrumentStore option + unit) \<times> world"
where
  "readCartridgeFile_try mk1 dx10 throws file sz cartName w =
     (let store = None; buffer = f_read file in
      if length buffer \<noteq> sz then
        (Inl (DataFormatException ''Could not read whole cartridge data'', store), w)
      else
        case try_Mk1 mk1 buffer store w of
          (Inl e, w) \<Rightarrow> (Inl (e, store), w)
        | (Inr store, w) \<Rightarrow>
            (case try_Dx10 dx10 buffer sz store w of
               (Inl e, w) \<Rightarrow> (Inl (e, store), w)
             | (Inr store, w) \<Rightarrow>
                 (case store of
                    None \<Rightarrow> (Inl (DataFormatException ''Unknown cartridge format'', store), w)
                  | Some s \<Rightarrow>
                      (case register_cartridge throws cartName s w of
                         (Inl e, w) \<Rightarrow> (Inl (e, store), w)
                       | (Inr u, w) \<Rightarrow> (Inr (), w)))))"

text \<open>
  \<^verbatim>\<open>catch (...) { if (store != nullptr) delete store; if (buffer != nullptr)
  delete[] buffer; throw; }\<close>. The buffer is never null here.
\<close>

definition readCartridgeFile_catch :: "InstrumentStore option \<Rightarrow> world \<Rightarrow> world" where
  "readCartridgeFile_catch store w =
     (let w = (if store \<noteq> None then w\<lparr>stores := stores w - 1\<rparr> else w)
      in w\<lparr>buffers := buffers w - 1\<rparr>)"

text \<open>
  \<^verbatim>\<open>MainFrame::readCartridgeFile(filePath, cartName)\<close>. The result is \<open>Inl\<close> the
  exception that leaves the function, or \<open>Inr ()\<close>, together with the state then.
  The constructors and the exceptions of the closing statements are parameters.
\<close>

definition readCartridgeFile ::
  "(8 word list \<Rightarrow> exn + InstrumentStore) \<Rightarrow> (8 word list \<Rightarrow> nat \<Rightarrow> exn + InstrumentStore)
     \<Rightarrow> (nat \<Rightarrow> exn option) \<Rightarrow> cart_file \<Rightarrow> string \<Rightarrow> world \<Rightarrow> (exn + unit) \<times> world"
where
  "readCartridgeFile mk1 dx10 throws file cartName w =
     (if \<not> f_exists file then (Inl (SystemException ''File does not exist''), w)
      else
        let sz = f_length file in
        if sz \<noteq> 8192 \<and> sz \<noteq> 16384 then
          (Inl (DataFormatException ''Invalid file size (must be 8 or 16 KB)''), w)
        else if f_stream_ok file then
          (let w = w\<lparr>buffers := buffers w + 1\<rparr> in
           case readCartridgeFile_try mk1 dx10 throws file (nat sz) cartName w of
             (Inl (e, store), w) \<Rightarrow> (Inl e, readCartridgeFile_catch store w)
           | (Inr u, w) \<Rightarrow> (Inr u, w))
        else (Inl (SystemException ''Unable to open file''), w))"

subsection \<open>Creating the configured devices\<close>

text \<open>
  The entries of one group under \<^verbatim>\<open>/Devices\<close> in the configuration. A missing
  string entry reads as the empty string; \<^verbatim>\<open>Read(key, &tmp)\<close> of a \<^verbatim>\<open>long\<close>
  answers whether the entry is there, so a missing number is \<open>None\<close>.
\<close>

record device_config =
  InPort :: string
  OutPort :: string
  Channel :: "int option"
  Type :: "int option"

text \<open>
  What RtMidi and the device class supply: whether the MIDI objects can be created
  (\<^verbatim>\<open>new RtMidiIn\<close> throws an \<^verbatim>\<open>RtMidiError\<close> otherwise), the names of the input
  and output ports by index, and the outcome of
  \<^verbatim>\<open>new Dx10Device(new uint8_t[6180], 6180)\<close>.
\<close>

record midi_env =
  midi_available :: bool
  in_ports :: "string list"
  out_ports :: "string list"
  device_ctor :: "exn + InstrumentStore"

text \<open>\<^verbatim>\<open>e.what()\<close>.\<close>

fun what :: "exn \<Rightarrow> string" where
  "what (SystemException m) = m"
| "what (DataFormatException m) = m"
| "what (ConfigurationException m) = m"
| "what (ForeignException m) = m"

text \<open>
  \<^verbatim>\<open>for (unsigned int idx = 0; idx < numPorts; ++idx) { if (name == portName) { ...
  found = true; break; } }\<close>: the index of the first port of that name.
\<close>

fun find_port :: "string \<Rightarrow> string list \<Rightarrow> nat \<Rightarrow> nat option" where
  "find_port wanted [] idx = None"
| "find_port wanted (n # ns) idx =
     (if n = wanted then Some idx else find_port wanted ns (idx + 1))"

text \<open>The end of the \<^verbatim>\<open>try\<close> block: the device's node, its children, its entry.\<close>

definition register_device :: "string \<Rightarrow> InstStore \<Rightarrow> world \<Rightarrow> world" where
  "register_device name is w =
     (let (ident, w) = AppendItem Devices name (is, 0) w;
          w = add_instruments ident is (case m_store is of None \<Rightarrow> [] | Some s \<Rightarrow> icbs s) w
      in insert_store (name, is) w)"

text \<open>
  The \<^verbatim>\<open>try\<close> block of \<^verbatim>\<open>createDevices\<close> for one group, last step first. Each
  step results in the exception thrown or \<open>Inr ()\<close>, with \<^verbatim>\<open>is\<close> as it is then (the
  handler inspects it) and the state. First the device type:
  \<^verbatim>\<open>if (!m_config.Read(wxT("Type"), &tmp) || tmp < 1 || tmp > 2) throw ...\<close>
\<close>

definition createDevice_type ::
  "string \<Rightarrow> device_config \<Rightarrow> InstStore \<Rightarrow> world \<Rightarrow> (exn + unit) \<times> InstStore \<times> world"
where
  "createDevice_type name cfg is w =
     (case Type cfg of
        None \<Rightarrow> (Inl (ConfigurationException ''Invalid value for device type''), is, w)
      | Some tmp \<Rightarrow>
          (if tmp < 1 \<or> tmp > 2 then
             (Inl (ConfigurationException ''Invalid value for device type''), is, w)
           else
             (let is = is\<lparr>m_type := of_int tmp\<rparr>
              in (Inr (), is, register_device name is w))))"

text \<open>\<^verbatim>\<open>if (!m_config.Read(wxT("Channel"), &tmp) || tmp < 1 || tmp > 16) throw ...\<close>\<close>

definition createDevice_channel ::
  "string \<Rightarrow> device_config \<Rightarrow> InstStore \<Rightarrow> world \<Rightarrow> (exn + unit) \<times> InstStore \<times> world"
where
  "createDevice_channel name cfg is w =
     (case Channel cfg of
        None \<Rightarrow> (Inl (ConfigurationException ''Invalid value for MIDI channel''), is, w)
      | Some tmp \<Rightarrow>
          (if tmp < 1 \<or> tmp > 16 then
             (Inl (ConfigurationException ''Invalid value for MIDI channel''), is, w)
           else createDevice_type name cfg (is\<lparr>m_channel := of_int tmp\<rparr>) w))"

text \<open>Look up and open the output port, under the name \<^verbatim>\<open>"DMS-Toolbox:" + name\<close>.\<close>

definition createDevice_out_port ::
  "midi_env \<Rightarrow> string \<Rightarrow> device_config \<Rightarrow> InstStore \<Rightarrow> world
     \<Rightarrow> (exn + unit) \<times> InstStore \<times> world"
where
  "createDevice_out_port env name cfg is w =
     (case find_port (OutPort cfg) (out_ports env) 0 of
        None \<Rightarrow> (Inl (ConfigurationException ''MIDI output port not found''), is, w)
      | Some idx \<Rightarrow>
          createDevice_channel name cfg
            (is\<lparr>m_midiOut := Some \<lparr>opened = Some (idx, ''DMS-Toolbox:'' @ name)\<rparr>\<rparr>) w)"

text \<open>Look up and open the input port.\<close>

definition createDevice_in_port ::
  "midi_env \<Rightarrow> string \<Rightarrow> device_config \<Rightarrow> InstStore \<Rightarrow> world
     \<Rightarrow> (exn + unit) \<times> InstStore \<times> world"
where
  "createDevice_in_port env name cfg is w =
     (case find_port (InPort cfg) (in_ports env) 0 of
        None \<Rightarrow> (Inl (ConfigurationException ''MIDI input port not found''), is, w)
      | Some idx \<Rightarrow>
          createDevice_out_port env name cfg
            (is\<lparr>m_midiIn := Some \<lparr>opened = Some (idx, ''DMS-Toolbox:'' @ name)\<rparr>\<rparr>) w)"

text \<open>
  The beginning of the block: the MIDI objects, then the device store over a fresh
  buffer of 6180 bytes. The buffer is allocated before the constructor runs.
\<close>

definition createDevice_try ::
  "midi_env \<Rightarrow> string \<Rightarrow> device_config \<Rightarrow> InstStore \<Rightarrow> world
     \<Rightarrow> (exn + unit) \<times> InstStore \<times> world"
where
  "createDevice_try env name cfg is w =
     (if \<not> midi_available env then (Inl (ForeignException ''RtMidiError''), is, w)
      else
        (let is = is\<lparr>m_midiIn := Some \<lparr>opened = None\<rparr>, m_midiOut := Some \<lparr>opened = None\<rparr>\<rparr>;
             w = w\<lparr>buffers := buffers w + 1\<rparr>
         in (case device_ctor env of
               Inl e \<Rightarrow> (Inl e, is, w)
             | Inr s \<Rightarrow>
                 createDevice_in_port env name cfg (is\<lparr>m_store := Some s\<rparr>)
                   (w\<lparr>stores := stores w + 1\<rparr>))))"

text \<open>
  \<^verbatim>\<open>catch (Exception& e)\<close>: the store and its buffer are deleted when the store is
  there, the MIDI objects are deleted, and a dialog shows the reason.
\<close>

definition createDevice_catch :: "string \<Rightarrow> exn \<Rightarrow> InstStore \<Rightarrow> world \<Rightarrow> world" where
  "createDevice_catch name e is w =
     (let w = (if m_store is \<noteq> None
               then w\<lparr>stores := stores w - 1, buffers := buffers w - 1\<rparr> else w)
      in w\<lparr>shown := shown w @
            [''Device '' @ [CHR 0x27] @ name @ [CHR 0x27] @ '' could not be created, reason: ''
               @ what e]\<rparr>)"

text \<open>
  One round of the loop of \<^verbatim>\<open>createDevices\<close>. \<^verbatim>\<open>InstStore is;\<close> starts with
  indeterminate contents, \<open>uninit\<close>, of which the three pointers are set to null. An
  exception that is not an \<^verbatim>\<open>Exception\<close> leaves the function.
\<close>

definition createDevice ::
  "midi_env \<Rightarrow> string \<Rightarrow> device_config \<Rightarrow> InstStore \<Rightarrow> world \<Rightarrow> (exn + unit) \<times> world"
where
  "createDevice env name cfg uninit w =
     (let is = uninit\<lparr>m_store := None, m_midiIn := None, m_midiOut := None\<rparr> in
      case createDevice_try env name cfg is w of
        (Inr u, is, w) \<Rightarrow> (Inr u, w)
      | (Inl e, is, w) \<Rightarrow>
          if isException e then (Inr (), createDevice_catch name e is w)
          else (Inl e, w))"

text \<open>\<^verbatim>\<open>MainFrame::createDevices()\<close> over the configured groups, in the build with RtMidi.\<close>

fun createDevices ::
  "midi_env \<Rightarrow> (string \<times> device_config) list \<Rightarrow> InstStore \<Rightarrow> world \<Rightarrow> (exn + unit) \<times> world"
where
  "createDevices env [] uninit w = (Inr (), w)"
| "createDevices env (g # groups) uninit w =
     (case createDevice env (fst g) (snd g) uninit w of
        (Inl e, w) \<Rightarrow> (Inl e, w)
      | (Inr u, w) \<Rightarrow> createDevices env groups uninit w)"

subsection \<open>Reading a store from a device\<close>

text \<open>
  \<^verbatim>\<open>onInstSelect\<close> calls \<^verbatim>\<open>store.m_store->readFromDevice(store.m_midiIn,
  store.m_midiOut, updateProgress, &prog)\<close> with a progress range of 6180 units. The
  function itself, and the frame handling of \<^verbatim>\<open>SysEx\<close> under it, are not among the
  sources; this subsection follows the specification's description of the read
  transaction.
\<close>

text \<open>Modelled from the spec: the block-type tag of a device message frame.\<close>

datatype block_kind = ICB | VCF | AMPL | FREQ | WAVE

text \<open>
  Modelled from the spec: the device message frame of the absent \<^verbatim>\<open>SysEx\<close> class, "a
  block-type tag, a device address/slot byte, the block's fixed-size payload for that
  type, and a trailing checksum byte computed over the payload".
\<close>

record frame =
  fr_tag :: block_kind
  fr_addr :: "8 word"
  fr_payload :: block
  fr_checksum :: "8 word"

text \<open>
  Modelled from the spec: what one unit of progress on the inbound channel brings, for
  the absent \<^verbatim>\<open>readFromDevice\<close>. A unit either completes a frame or leaves the
  current frame incomplete.
\<close>

datatype arrival = Pending | Framed frame

text \<open>
  Modelled from the spec: the parameters of the absent transfer protocol. The checksum
  algorithm and the layout of an ICB are "pluggable", the number of expected blocks is
  "device-generation-specific", and \<open>unitsTotal\<close> is the "fixed total-unit budget
  (e.g. 6180 units)".
\<close>

record protocol =
  cksum :: "block \<Rightarrow> 8 word"
  icb_of :: "block \<Rightarrow> Icb"
  expectedCount :: nat
  unitsTotal :: nat

text \<open>
  Modelled from the spec: the states of the read path of the absent
  \<^verbatim>\<open>readFromDevice\<close>, "Idle, AwaitingBlock(expectedCount, receivedCount), Complete,
  Cancelled", the last two being terminal.
\<close>

datatype transfer = Idle | AwaitingBlock nat nat | Complete | Cancelled

text \<open>
  Modelled from the spec: setting a slot of the absent \<^verbatim>\<open>InstrumentStore\<close>, "an
  ordered mapping from slot index", iterated in slot order.
\<close>

definition store_put :: "8 word \<Rightarrow> 'a \<Rightarrow> (8 word \<times> 'a) list \<Rightarrow> (8 word \<times> 'a) list" where
  "store_put k v xs = insort_key fst (k, v) (filter (\<lambda>p. fst p \<noteq> k) xs)"

text \<open>
  Modelled from the spec: the ApplyBlock step of the absent \<^verbatim>\<open>readFromDevice\<close>; a
  frame carries one block, which is stored whole at the frame's address.
\<close>

definition apply_frame :: "protocol \<Rightarrow> frame \<Rightarrow> InstrumentStore \<Rightarrow> InstrumentStore" where
  "apply_frame p f st =
     (case fr_tag f of
        ICB \<Rightarrow> st\<lparr>icbs := store_put (fr_addr f) (icb_of p (fr_payload f)) (icbs st)\<rparr>
      | VCF \<Rightarrow> st\<lparr>vcf_blocks := store_put (fr_addr f) (fr_payload f) (vcf_blocks st)\<rparr>
      | AMPL \<Rightarrow> st\<lparr>ampl_blocks := store_put (fr_addr f) (fr_payload f) (ampl_blocks st)\<rparr>
      | FREQ \<Rightarrow> st\<lparr>freq_blocks := store_put (fr_addr f) (fr_payload f) (freq_blocks st)\<rparr>
      | WAVE \<Rightarrow> st\<lparr>wave_blocks := store_put (fr_addr f) (fr_payload f) (wave_blocks st)\<rparr>)"

text \<open>
  Modelled from the spec: the checksum verification of the absent \<^verbatim>\<open>SysEx\<close> class,
  "each incoming message's checksum is verified before being applied".
\<close>

definition checksum_ok :: "protocol \<Rightarrow> frame \<Rightarrow> bool" where
  "checksum_ok p f = (cksum p (fr_payload f) = fr_checksum f)"

text \<open>
  Modelled from the spec: the receiving loop of the absent \<^verbatim>\<open>readFromDevice\<close>, in the
  state AwaitingBlock(\<open>expected\<close>, \<open>received\<close>) with \<open>units\<close> units completed. A frame
  whose checksum does not match aborts the transaction with a DataFormat error and is
  not applied. After each unit the progress callback is called with the units completed
  and the total; when it answers false the transaction is Cancelled. It is Complete when
  all expected blocks have arrived or the budget is exhausted. When the inbound channel
  has nothing more, the transaction stays suspended in AwaitingBlock. The store is
  changed in place, so it is part of every result.
\<close>

fun receive ::
  "protocol \<Rightarrow> (nat \<Rightarrow> nat \<Rightarrow> bool) \<Rightarrow> arrival list \<Rightarrow> nat \<Rightarrow> nat \<Rightarrow> nat \<Rightarrow> InstrumentStore
     \<Rightarrow> (exn + transfer) \<times> InstrumentStore"
where
  "receive p cb [] expected received units st = (Inr (AwaitingBlock expected received), st)"
| "receive p cb (Pending # rest) expected received units st =
     (if \<not> cb (units + 1) (unitsTotal p) then (Inr Cancelled, st)
      else if unitsTotal p \<le> units + 1 then (Inr Complete, st)
      else receive p cb rest expected received (units + 1) st)"
| "receive p cb (Framed f # rest) expected received units st =
     (if \<not> checksum_ok p f then (Inl (DataFormatException ''Checksum mismatch''), st)
      else
        (let st = apply_frame p f st in
         if \<not> cb (units + 1) (unitsTotal p) then (Inr Cancelled, st)
         else if expected \<le> received + 1 \<or> unitsTotal p \<le> units + 1 then (Inr Complete, st)
         else receive p cb rest expected (received + 1) (units + 1) st))"

text \<open>
  Modelled from the spec: \<^verbatim>\<open>readFromDevice(inChannel, outChannel, progressCallback,
  progressContext)\<close> of the absent device store, from Idle on. The request it issues on
  the outbound channel does not touch the store and is left out; the callback has its
  context built in; \<open>inbound\<close> is what the inbound channel delivers, unit by unit.
\<close>

definition readFromDevice ::
  "protocol \<Rightarrow> (nat \<Rightarrow> nat \<Rightarrow> bool) \<Rightarrow> arrival list \<Rightarrow> InstrumentStore
     \<Rightarrow> (exn + transfer) \<times> InstrumentStore"
where
  "readFromDevice p cb inbound st = receive p cb inbound (expectedCount p) 0 0 st"

subsection \<open>Notions used to state the properties\<close>

text \<open>
  The messages for a list of probed addresses: one message for every address at which
  the store has a block, in the order of the list, and none for an address whose block
  is unset.
\<close>

definition block_messages ::
  "(8 word \<Rightarrow> block \<Rightarrow> message) \<Rightarrow> (8 word \<Rightarrow> block option) \<Rightarrow> 8 word list \<Rightarrow> message list"
where
  "block_messages send get addrs =
     concat (map (\<lambda>a. case get a of None \<Rightarrow> [] | Some b \<Rightarrow> [send a b]) addrs)"

text \<open>
  The specification's wording for the source of the address offset: the lowest
  non-zero ICB slot among those iterated (none when every slot is zero or the store has
  no ICB).
\<close>

definition lowest_nonzero_slot :: "(8 word \<times> Icb) list \<Rightarrow> 8 word option" where
  "lowest_nonzero_slot xs =
     (case filter (\<lambda>s. s \<noteq> 0) (map fst xs) of
        [] \<Rightarrow> None
      | s # ss \<Rightarrow> Some (fold min ss s))"

text \<open>
  The specification's wording for the choice of the layout: the layouts are tried in
  order, the first that validates is the result, a DataFormat failure passes on to the
  next layout, any other failure is the result, and when no layout validates the result
  is the DataFormat error "Unknown cartridge format".
\<close>

fun first_valid :: "(exn + InstrumentStore) list \<Rightarrow> exn + InstrumentStore" where
  "first_valid [] = Inl (DataFormatException ''Unknown cartridge format'')"
| "first_valid (Inr s # rest) = Inr s"
| "first_valid (Inl e # rest) = (if isDataFormat e then first_valid rest else Inl e)"

text \<open>The configured MIDI channel is there and within 1 to 16; the type within 1 to 2.\<close>

definition channel_ok :: "device_config \<Rightarrow> bool" where
  "channel_ok cfg = (case Channel cfg of None \<Rightarrow> False | Some c \<Rightarrow> 1 \<le> c \<and> c \<le> 16)"

definition type_ok :: "device_config \<Rightarrow> bool" where
  "type_ok cfg = (case Type cfg of None \<Rightarrow> False | Some t \<Rightarrow> 1 \<le> t \<and> t \<le> 2)"

text \<open>The frames completed by a sequence of units, in order.\<close>

fun frames_of :: "arrival list \<Rightarrow> frame list" where
  "frames_of [] = []"
| "frames_of (Pending # rest) = frames_of rest"
| "frames_of (Framed f # rest) = f # frames_of rest"

text \<open>The store has the block of the given kind at the given address or slot.\<close>

definition has_block :: "InstrumentStore \<Rightarrow> block_kind \<Rightarrow> 8 word \<Rightarrow> bool" where
  "has_block st kind a =
     (case kind of
        ICB \<Rightarrow> map_of (icbs st) a \<noteq> None
      | VCF \<Rightarrow> getVcf st a \<noteq> None
      | AMPL \<Rightarrow> getAmpl st a \<noteq> None
      | FREQ \<Rightarrow> getFreq st a \<noteq> None
      | WAVE \<Rightarrow> getWave st a \<noteq> None)"

section \<open>Properties\<close>

subsection \<open>The progress callback\<close>

text \<open>
  C10. Called with a null context pointer, the progress callback returns false (it
  requests cancellation) and does not dereference the pointer: whatever the heap holds,
  whatever the dialog's \<open>Update\<close> would answer, and for every \<open>unitsCompleted\<close> and
  \<open>unitsTotal\<close>, the result is the value false and not a fault.
\<close>

theorem updateProgress_null:
  "updateProgress Update heap 0 current maxv = Inr False"
  by (simp add: updateProgress_def)


subsection \<open>Writing a store to a device\<close>

lemma block_messages_Nil: "block_messages send get [] = []"
  by (simp add: block_messages_def)

lemma block_messages_Cons:
  "block_messages send get (a # as) =
     (case get a of None \<Rightarrow> [] | Some b \<Rightarrow> [send a b]) @ block_messages send get as"
  by (simp add: block_messages_def)

lemma send_icbs_out:
  "snd (send_icbs ty xs (offset, out)) = out @ map (\<lambda>i. SendIcb ty (fst i) (snd i)) xs"
  by (induction xs arbitrary: offset out) simp_all

lemma send_icbs_offset:
  "fst (send_icbs ty xs (offset, out)) =
     (if offset \<noteq> 0 then offset
      else case find (\<lambda>s. s \<noteq> 1) (map fst xs) of None \<Rightarrow> 0 | Some s \<Rightarrow> s - 1)"
proof (induction xs arbitrary: offset out)
  case Nil
  show ?case by simp
next
  case (Cons x xs)
  show ?case
  proof (cases "offset = 0")
    case True
    then show ?thesis using Cons.IH [of "fst x - 1"] by auto
  next
    case False
    then show ?thesis using Cons.IH [of offset] by simp
  qed
qed

lemma vcf_loop_eq:
  "vcf_loop st ty offset i out =
     out @ block_messages (SendVcf ty) (getVcf st) (map (\<lambda>k. of_nat k + offset) [i..<10])"
proof (induction st ty offset i out rule: vcf_loop.induct)
  case (1 st ty offset i out)
  show ?case
  proof (cases "i < 10")
    case False
    then show ?thesis by (subst vcf_loop.simps) (simp add: block_messages_Nil)
  next
    case True
    then have upt: "[i..<10] = i # [Suc i..<10]" by (simp add: upt_conv_Cons)
    show ?thesis
    proof (cases "getVcf st (of_nat i + offset)")
      case None
      with True 1(1) [OF True refl None] show ?thesis
        by (subst vcf_loop.simps) (simp add: upt block_messages_Cons)
    next
      case (Some b)
      with True 1(2) [OF True refl Some] show ?thesis
        by (subst vcf_loop.simps) (simp add: upt block_messages_Cons)
    qed
  qed
qed

lemma ampl_loop_eq:
  "ampl_loop st ty offset i out =
     out @ block_messages (SendAmpl ty) (getAmpl st)
             (map (\<lambda>k. if 10 \<le> k then of_nat k + offset + 1 else of_nat k + offset) [i..<20])"
proof (induction st ty offset i out rule: ampl_loop.induct)
  case (1 st ty offset i out)
  define addr where "addr = (if 10 \<le> i then of_nat i + offset + 1 else of_nat i + offset)"
  show ?case
  proof (cases "i < 20")
    case False
    then show ?thesis by (subst ampl_loop.simps) (simp add: block_messages_Nil)
  next
    case True
    then have upt: "[i..<20] = i # [Suc i..<20]" by (simp add: upt_conv_Cons)
    show ?thesis
    proof (cases "getAmpl st addr")
      case None
      with True 1(1) [OF True refl refl] show ?thesis
        by (subst ampl_loop.simps) (simp add: upt block_messages_Cons addr_def)
    next
      case (Some b)
      with True 1(2) [OF True refl refl, of b] show ?thesis
        by (subst ampl_loop.simps) (simp add: upt block_messages_Cons addr_def)
    qed
  qed
qed

lemma freq_loop_eq:
  "freq_loop st ty offset i out =
     out @ block_messages (SendFreq ty) (getFreq st)
             (map (\<lambda>k. if 10 \<le> k then of_nat k + offset + 1 else of_nat k + offset) [i..<20])"
proof (induction st ty offset i out rule: freq_loop.induct)
  case (1 st ty offset i out)
  define addr where "addr = (if 10 \<le> i then of_nat i + offset + 1 else of_nat i + offset)"
  show ?case
  proof (cases "i < 20")
    case False
    then show ?thesis by (subst freq_loop.simps) (simp add: block_messages_Nil)
  next
    case True
    then have upt: "[i..<20] = i # [Suc i..<20]" by (simp add: upt_conv_Cons)
    show ?thesis
    proof (cases "getFreq st addr")
      case None
      with True 1(1) [OF True refl refl] show ?thesis
        by (subst freq_loop.simps) (simp add: upt block_messages_Cons addr_def)
    next
      case (Some b)
      with True 1(2) [OF True refl refl, of b] show ?thesis
        by (subst freq_loop.simps) (simp add: upt block_messages_Cons addr_def)
    qed
  qed
qed

lemma wave_loop_eq:
  "wave_loop st ty offset i out =
     out @ block_messages (SendWave ty) (getWave st)
             (map (\<lambda>k. if 10 \<le> k then of_nat k + offset + 1 else of_nat k + offset) [i..<20])"
proof (induction st ty offset i out rule: wave_loop.induct)
  case (1 st ty offset i out)
  define addr where "addr = (if 10 \<le> i then of_nat i + offset + 1 else of_nat i + offset)"
  show ?case
  proof (cases "i < 20")
    case False
    then show ?thesis by (subst wave_loop.simps) (simp add: block_messages_Nil)
  next
    case True
    then have upt: "[i..<20] = i # [Suc i..<20]" by (simp add: upt_conv_Cons)
    show ?thesis
    proof (cases "getWave st addr")
      case None
      with True 1(1) [OF True refl refl] show ?thesis
        by (subst wave_loop.simps) (simp add: upt block_messages_Cons addr_def)
    next
      case (Some b)
      with True 1(2) [OF True refl refl, of b] show ?thesis
        by (subst wave_loop.simps) (simp add: upt block_messages_Cons addr_def)
    qed
  qed
qed

lemma second_group_addrs:
  "map (\<lambda>k. if 10 \<le> k then of_nat k + offset + 1 else of_nat k + (offset :: 8 word)) [0..<20] =
     map (\<lambda>k. of_nat k + offset) [0..<10] @ map (\<lambda>k. of_nat k + offset + 1) [10..<20]"
proof -
  have "[0..<20] = [0..<10] @ [10..<20::nat]"
    using upt_add_eq_append [of 0 10 10] by simp
  then show ?thesis by simp
qed

text \<open>
  Where the ICBs are iterated in ascending slot order and the first slot is neither 0
  nor 1, the offset is the lowest non-zero slot less one, as the specification has it.
\<close>

lemma fold_min_least: "\<forall>y \<in> set ys. s \<le> y \<Longrightarrow> fold min ys s = (s :: 8 word)"
  by (induction ys) (simp_all add: min_absorb2)

lemma send_icbs_offset_lowest_nonzero:
  assumes "sorted (map fst (x # xs))" and "fst x \<noteq> 0" and "fst x \<noteq> 1"
  shows "lowest_nonzero_slot (x # xs) = Some (fst x)
       \<and> fst (send_icbs ty (x # xs) (0, out)) = fst x - 1"
proof -
  have "\<forall>y \<in> set (filter (\<lambda>s. s \<noteq> 0) (map fst xs)). fst x \<le> y"
    using assms(1) by auto
  then have "fold min (filter (\<lambda>s. s \<noteq> 0) (map fst xs)) (fst x) = fst x"
    by (rule fold_min_least)
  then have "lowest_nonzero_slot (x # xs) = Some (fst x)"
    using assms(2) by (simp add: lowest_nonzero_slot_def)
  moreover have "fst (send_icbs ty (x # xs) (0, out)) = fst x - 1"
    using assms(3) by (simp add: send_icbs_offset)
  ultimately show ?thesis by simp
qed

text \<open>
  C4. The address offset is to be derived from the lowest non-zero ICB slot seen while
  iterating. \<^verbatim>\<open>writeDevice\<close> sets the offset once, from the first ICB, and takes the
  value 0 for "not yet set". When the lowest slot is 1, the offset derived from it is 0,
  which the code takes for unset, so the next ICB overwrites it: of two stores whose
  lowest non-zero slot is 1, the one with the slots 1 and 2 gets the offset 1 and the one
  with the slots 1 and 3 gets the offset 2, neither the offset 0 of slot 1.
\<close>

theorem writeDevice_offset_slot_1_taken_for_unset:
  "lowest_nonzero_slot
      [(1, \<lparr>getName = ''A'', getAmplBlock = 1, getFreqBlock = 1, getWaveBlock = 1\<rparr>),
       (2, \<lparr>getName = ''B'', getAmplBlock = 2, getFreqBlock = 2, getWaveBlock = 2\<rparr>)] = Some 1
   \<and> fst (send_icbs 1
      [(1, \<lparr>getName = ''A'', getAmplBlock = 1, getFreqBlock = 1, getWaveBlock = 1\<rparr>),
       (2, \<lparr>getName = ''B'', getAmplBlock = 2, getFreqBlock = 2, getWaveBlock = 2\<rparr>)] (0, [])) = 1
   \<and> lowest_nonzero_slot
      [(1, \<lparr>getName = ''A'', getAmplBlock = 1, getFreqBlock = 1, getWaveBlock = 1\<rparr>),
       (3, \<lparr>getName = ''B'', getAmplBlock = 2, getFreqBlock = 2, getWaveBlock = 2\<rparr>)] = Some 1
   \<and> fst (send_icbs 1
      [(1, \<lparr>getName = ''A'', getAmplBlock = 1, getFreqBlock = 1, getWaveBlock = 1\<rparr>),
       (3, \<lparr>getName = ''B'', getAmplBlock = 2, getFreqBlock = 2, getWaveBlock = 2\<rparr>)] (0, [])) = 2"
  by (simp add: lowest_nonzero_slot_def)

text \<open>
  C5. A write transaction sends the blocks of the store in a fixed order: first one
  message for every ICB, in iteration order; then the filter blocks, probed at 10
  addresses; then the amplitude blocks, the frequency blocks and the waveform blocks,
  each probed at 20 addresses. Within a group there is one message for every probed
  address whose block is set, in the order of the probes, and none for an address whose
  block is unset.
\<close>

theorem writeDevice_order:
  assumes "m_store store = Some st"
  shows "writeDevice store =
     (let ty = m_type store;
          offset = fst (send_icbs ty (icbs st) (0, []));
          addr10 = map (\<lambda>i. of_nat i + offset) [0..<10];
          addr20 = map (\<lambda>i. if 10 \<le> i then of_nat i + offset + 1 else of_nat i + offset) [0..<20]
      in Some (map (\<lambda>i. SendIcb ty (fst i) (snd i)) (icbs st)
               @ block_messages (SendVcf ty) (getVcf st) addr10
               @ block_messages (SendAmpl ty) (getAmpl st) addr20
               @ block_messages (SendFreq ty) (getFreq st) addr20
               @ block_messages (SendWave ty) (getWave st) addr20))"
proof -
  have out: "snd (send_icbs (m_type store) (icbs st) (0, [])) =
      map (\<lambda>i. SendIcb (m_type store) (fst i) (snd i)) (icbs st)"
    using send_icbs_out [of "m_type store" "icbs st" 0 "[]"] by simp
  show ?thesis
    using assms
    by (simp add: writeDevice_def case_prod_beta out Let_def vcf_loop_eq ampl_loop_eq
        freq_loop_eq wave_loop_eq)
qed

theorem writeDevice_order_witness:
  "writeDevice
     \<lparr>m_store = Some \<lparr>icbs = [(66, \<lparr>getName = ''PIANO'', getAmplBlock = 66, getFreqBlock = 66,
                                   getWaveBlock = 76\<rparr>)],
                      vcf_blocks = [(65, [1, 2])], ampl_blocks = [(66, [3])],
                      freq_blocks = [(66, [4])], wave_blocks = [(76, [5]), (75, [6])]\<rparr>,
      m_midiIn = None, m_midiOut = Some \<lparr>opened = Some (0, ''DMS-Toolbox:dev'')\<rparr>,
      m_channel = 1, m_type = 2\<rparr>
   = Some [SendIcb 2 66 \<lparr>getName = ''PIANO'', getAmplBlock = 66, getFreqBlock = 66,
                         getWaveBlock = 76\<rparr>,
           SendVcf 2 65 [1, 2], SendAmpl 2 66 [3], SendFreq 2 66 [4], SendWave 2 76 [5]]"
  using writeDevice_order [of
     "\<lparr>m_store = Some \<lparr>icbs = [(66, \<lparr>getName = ''PIANO'', getAmplBlock = 66, getFreqBlock = 66,
                                   getWaveBlock = 76\<rparr>)],
                      vcf_blocks = [(65, [1, 2])], ampl_blocks = [(66, [3])],
                      freq_blocks = [(66, [4])], wave_blocks = [(76, [5]), (75, [6])]\<rparr>,
      m_midiIn = None, m_midiOut = Some \<lparr>opened = Some (0, ''DMS-Toolbox:dev'')\<rparr>,
      m_channel = 1, m_type = 2\<rparr>"
     "\<lparr>icbs = [(66, \<lparr>getName = ''PIANO'', getAmplBlock = 66, getFreqBlock = 66,
                     getWaveBlock = 76\<rparr>)],
        vcf_blocks = [(65, [1, 2])], ampl_blocks = [(66, [3])],
        freq_blocks = [(66, [4])], wave_blocks = [(76, [5]), (75, [6])]\<rparr>"]
  by (simp add: block_messages_def getVcf_def getAmpl_def getFreq_def getWave_def upt_rec)

text \<open>
  C9. For the amplitude, frequency and waveform blocks the address probed at index
  \<open>i\<close> is \<open>i + offset\<close> for the indices 0 to 9 and \<open>i + offset + 1\<close> for the indices
  10 to 19 (as bytes, modulo 256), so that the address \<open>offset + 10\<close> between the two
  groups of ten is never probed; the filter blocks are probed at \<open>i + offset\<close> for the
  indices 0 to 9, with no such gap.
\<close>

theorem writeDevice_second_group_skips_one:
  "vcf_loop st ty offset 0 out =
     out @ block_messages (SendVcf ty) (getVcf st) (map (\<lambda>i. of_nat i + offset) [0..<10])
   \<and> ampl_loop st ty offset 0 out =
     out @ block_messages (SendAmpl ty) (getAmpl st)
             (map (\<lambda>i. of_nat i + offset) [0..<10] @ map (\<lambda>i. of_nat i + offset + 1) [10..<20])
   \<and> freq_loop st ty offset 0 out =
     out @ block_messages (SendFreq ty) (getFreq st)
             (map (\<lambda>i. of_nat i + offset) [0..<10] @ map (\<lambda>i. of_nat i + offset + 1) [10..<20])
   \<and> wave_loop st ty offset 0 out =
     out @ block_messages (SendWave ty) (getWave st)
             (map (\<lambda>i. of_nat i + offset) [0..<10] @ map (\<lambda>i. of_nat i + offset + 1) [10..<20])
   \<and> offset + 10 \<notin> set (map (\<lambda>i. of_nat i + offset) [0..<10]
                          @ map (\<lambda>i. of_nat i + offset + 1) [10..<20])"
proof -
  have gap: "offset + 10 \<notin> set (map (\<lambda>i. of_nat i + offset) [0..<10]
                                 @ map (\<lambda>i. of_nat i + offset + 1) [10..<20])"
    by (simp add: upt_rec)
  show ?thesis
    using gap
    by (simp only: vcf_loop_eq ampl_loop_eq freq_loop_eq wave_loop_eq second_group_addrs
        simp_thms)
qed

subsection \<open>Reading a cartridge file\<close>

lemma add_instruments_tree:
  "m_instTree (add_instruments ident is xs w) =
     m_instTree w @
     map (\<lambda>i. \<lparr>parent = ident, label = instName i, helper_store = is, helper_icb = fst i\<rparr>) xs"
  by (induction xs arbitrary: w) (simp_all add: add_instruments_def AppendItem_def)

lemma add_instruments_fields:
  "m_instrumentStores (add_instruments ident is xs w) = m_instrumentStores w"
  "buffers (add_instruments ident is xs w) = buffers w"
  "stores (add_instruments ident is xs w) = stores w"
  "constructed (add_instruments ident is xs w) = constructed w"
  "shown (add_instruments ident is xs w) = shown w"
  by (induction xs arbitrary: w) (simp_all add: add_instruments_def AppendItem_def)

lemma insert_store_fields:
  "m_instTree (insert_store entry w) = m_instTree w"
  "buffers (insert_store entry w) = buffers w"
  "stores (insert_store entry w) = stores w"
  "constructed (insert_store entry w) = constructed w"
  "shown (insert_store entry w) = shown w"
  by (simp_all add: insert_store_def split: option.splits)

lemma insert_store_map:
  "m_instrumentStores (insert_store entry w) =
     (case map_of (m_instrumentStores w) (fst entry) of
        None \<Rightarrow> m_instrumentStores w @ [entry]
      | Some existing \<Rightarrow> m_instrumentStores w)"
  by (simp add: insert_store_def split: option.splits)

lemma register_device_fields:
  "buffers (register_device n is w) = buffers w"
  "stores (register_device n is w) = stores w"
  "constructed (register_device n is w) = constructed w"
  "shown (register_device n is w) = shown w"
  by (simp_all add: register_device_def Let_def AppendItem_def insert_store_fields
      add_instruments_fields)

lemma AppendItem_update:
  "AppendItem p l hp (buffers_update f w) = map_prod id (buffers_update f) (AppendItem p l hp w)"
  "AppendItem p l hp (stores_update g w) = map_prod id (stores_update g) (AppendItem p l hp w)"
  "AppendItem p l hp (constructed_update h w) =
     map_prod id (constructed_update h) (AppendItem p l hp w)"
  by (simp_all add: AppendItem_def)

lemma add_instruments_throwing_update:
  "add_instruments_throwing t k ident is xs (buffers_update f w) =
     map_prod id (buffers_update f) (add_instruments_throwing t k ident is xs w)"
  "add_instruments_throwing t k ident is xs (stores_update g w) =
     map_prod id (stores_update g) (add_instruments_throwing t k ident is xs w)"
  "add_instruments_throwing t k ident is xs (constructed_update h w) =
     map_prod id (constructed_update h) (add_instruments_throwing t k ident is xs w)"
  by (induction xs arbitrary: k w) (simp_all add: AppendItem_update split: option.splits)

lemma insert_store_update:
  "insert_store entry (buffers_update f w) = buffers_update f (insert_store entry w)"
  "insert_store entry (stores_update g w) = stores_update g (insert_store entry w)"
  "insert_store entry (constructed_update h w) = constructed_update h (insert_store entry w)"
  by (simp_all add: insert_store_def split: option.splits)

lemma register_cartridge_update:
  "register_cartridge t n s (buffers_update f w) =
     map_prod id (buffers_update f) (register_cartridge t n s w)"
  "register_cartridge t n s (stores_update g w) =
     map_prod id (stores_update g) (register_cartridge t n s w)"
  "register_cartridge t n s (constructed_update h w) =
     map_prod id (constructed_update h) (register_cartridge t n s w)"
  by (simp_all add: register_cartridge_def Let_def case_prod_beta AppendItem_update
      add_instruments_throwing_update insert_store_update
      split: option.splits sum.splits)

lemma add_instruments_throwing_fields:
  "m_instrumentStores (snd (add_instruments_throwing t k ident is xs w)) = m_instrumentStores w"
  "buffers (snd (add_instruments_throwing t k ident is xs w)) = buffers w"
  "stores (snd (add_instruments_throwing t k ident is xs w)) = stores w"
  "constructed (snd (add_instruments_throwing t k ident is xs w)) = constructed w"
  "shown (snd (add_instruments_throwing t k ident is xs w)) = shown w"
  by (induction xs arbitrary: k w) (simp_all add: AppendItem_def split: option.splits)

lemma register_cartridge_fields:
  "buffers (snd (register_cartridge t n s w)) = buffers w"
  "stores (snd (register_cartridge t n s w)) = stores w"
  "constructed (snd (register_cartridge t n s w)) = constructed w"
  "shown (snd (register_cartridge t n s w)) = shown w"
proof -
  let ?is = "\<lparr>m_store = Some s, m_midiIn = None, m_midiOut = None, m_channel = 0, m_type = 0\<rparr>"
  let ?w1 = "snd (AppendItem Cartridges n (?is, 0) w)"
  let ?r = "add_instruments_throwing t 1 (fst (AppendItem Cartridges n (?is, 0) w)) ?is (icbs s) ?w1"
  have f: "buffers (snd ?r) = buffers w" "stores (snd ?r) = stores w"
    "constructed (snd ?r) = constructed w" "shown (snd ?r) = shown w"
    by (simp_all add: add_instruments_throwing_fields AppendItem_def)
  show "buffers (snd (register_cartridge t n s w)) = buffers w"
    using f(1) by (cases ?r)
      (auto simp: register_cartridge_def Let_def case_prod_beta insert_store_fields
        split: option.splits sum.splits)
  show "stores (snd (register_cartridge t n s w)) = stores w"
    using f(2) by (cases ?r)
      (auto simp: register_cartridge_def Let_def case_prod_beta insert_store_fields
        split: option.splits sum.splits)
  show "constructed (snd (register_cartridge t n s w)) = constructed w"
    using f(3) by (cases ?r)
      (auto simp: register_cartridge_def Let_def case_prod_beta insert_store_fields
        split: option.splits sum.splits)
  show "shown (snd (register_cartridge t n s w)) = shown w"
    using f(4) by (cases ?r)
      (auto simp: register_cartridge_def Let_def case_prod_beta insert_store_fields
        split: option.splits sum.splits)
qed

lemma register_cartridge_failed_collection:
  "fst (register_cartridge t n s w) = Inl e \<Longrightarrow>
     m_instrumentStores (snd (register_cartridge t n s w)) = m_instrumentStores w"
proof -
  let ?is = "\<lparr>m_store = Some s, m_midiIn = None, m_midiOut = None, m_channel = 0, m_type = 0\<rparr>"
  let ?w1 = "snd (AppendItem Cartridges n (?is, 0) w)"
  let ?r = "add_instruments_throwing t 1 (fst (AppendItem Cartridges n (?is, 0) w)) ?is (icbs s) ?w1"
  assume failed: "fst (register_cartridge t n s w) = Inl e"
  have "m_instrumentStores (snd ?r) = m_instrumentStores w"
    by (simp add: add_instruments_throwing_fields AppendItem_def)
  with failed show ?thesis
    by (cases ?r)
      (auto simp: register_cartridge_def Let_def case_prod_beta
        split: option.splits sum.splits)
qed

lemmas readCartridgeFile_defs =
  readCartridgeFile_def readCartridgeFile_try_def readCartridgeFile_catch_def
  try_Mk1_def try_Dx10_def new_Mk1Cartridge_def new_Dx10Cartridge_def

text \<open>
  C1. For a file that exists, has one of the two valid sizes, opens and is read in full,
  decoding tries the layouts in a fixed order, Mk1 first and then Dx10: the constructor
  of Mk1 is always invoked, that of Dx10 exactly when Mk1 failed with a DataFormat
  error. The outcome is that of the first layout that validates: its store is the one
  that is registered, in the tree and in the collection, unless a registering statement
  throws, and then that exception leaves the function. Only a DataFormat failure passes
  on to the next layout, any other exception of a constructor leaves the function at
  once. When no layout validates, the function fails with the DataFormat error "Unknown
  cartridge format", and no store is live, shown in the tree or registered.
\<close>

theorem readCartridgeFile_first_valid_layout:
  assumes "f_exists file" and "f_length file = 8192 \<or> f_length file = 16384"
    and "f_stream_ok file" and "length (f_read file) = nat (f_length file)"
  shows "let r = readCartridgeFile mk1 dx10 throws file cartName w;
             a = mk1 (f_read file);
             b = dx10 (f_read file) (nat (f_length file))
         in (case first_valid [a, b] of
               Inl e \<Rightarrow> fst r = Inl e \<and> stores (snd r) = stores w
                        \<and> m_instTree (snd r) = m_instTree w
                        \<and> m_instrumentStores (snd r) = m_instrumentStores w
             | Inr s \<Rightarrow>
                 (case fst (register_cartridge throws cartName s w) of
                    Inl e \<Rightarrow> fst r = Inl e
                  | Inr u \<Rightarrow>
                      fst r = Inr () \<and> stores (snd r) = stores w + 1
                      \<and> m_instTree (snd r) =
                          m_instTree (snd (register_cartridge throws cartName s w))
                      \<and> m_instrumentStores (snd r) =
                          m_instrumentStores (snd (register_cartridge throws cartName s w))))
            \<and> constructed (snd r) = constructed w @
                 (if (case a of Inl e \<Rightarrow> isDataFormat e | Inr s \<Rightarrow> False)
                  then [Mk1, Dx10] else [Mk1])"
  using assms
  by (auto simp add: readCartridgeFile_defs Let_def case_prod_beta register_cartridge_update
      register_cartridge_fields split: sum.splits option.splits)


theorem readCartridgeFile_first_valid_layout_witness:
  "fst (readCartridgeFile
          (\<lambda>buffer. Inl (DataFormatException ''Not a Mk1 cartridge''))
          (\<lambda>buffer sz. Inr \<lparr>icbs = [], vcf_blocks = [], ampl_blocks = [], freq_blocks = [],
                            wave_blocks = []\<rparr>)
          (\<lambda>k. None)
          \<lparr>f_exists = True, f_length = 8192, f_stream_ok = True, f_read = replicate 8192 0\<rparr>
          ''bank.bin''
          \<lparr>m_instTree = [], m_instrumentStores = [], shown = [], buffers = 0, stores = 0,
            constructed = []\<rparr>) = Inr ()
   \<and> constructed (snd (readCartridgeFile
          (\<lambda>buffer. Inl (DataFormatException ''Not a Mk1 cartridge''))
          (\<lambda>buffer sz. Inr \<lparr>icbs = [], vcf_blocks = [], ampl_blocks = [], freq_blocks = [],
                            wave_blocks = []\<rparr>)
          (\<lambda>k. None)
          \<lparr>f_exists = True, f_length = 8192, f_stream_ok = True, f_read = replicate 8192 0\<rparr>
          ''bank.bin''
          \<lparr>m_instTree = [], m_instrumentStores = [], shown = [], buffers = 0, stores = 0,
            constructed = []\<rparr>)) = [Mk1, Dx10]"
  using readCartridgeFile_first_valid_layout [of
          "\<lparr>f_exists = True, f_length = 8192, f_stream_ok = True, f_read = replicate 8192 0\<rparr>"
          "\<lambda>buffer. Inl (DataFormatException ''Not a Mk1 cartridge'')"
          "\<lambda>buffer sz. Inr \<lparr>icbs = [], vcf_blocks = [], ampl_blocks = [], freq_blocks = [],
                            wave_blocks = []\<rparr>"
          "\<lambda>k. None"
          "''bank.bin''"
          "\<lparr>m_instTree = [], m_instrumentStores = [], shown = [], buffers = 0, stores = 0,
            constructed = []\<rparr>"]
  by (simp add: Let_def register_cartridge_def AppendItem_def)

text \<open>
  C2. For an existing file whose length is neither 8192 nor 16384, decoding fails with
  a DataFormat error and the state is as before: no constructor was invoked (the list of
  constructor calls is unchanged), no buffer was allocated and no store is produced,
  whatever the constructors would do.
\<close>

theorem readCartridgeFile_rejects_size:
  assumes "f_exists file" and "f_length file \<noteq> 8192" and "f_length file \<noteq> 16384"
  shows "readCartridgeFile mk1 dx10 throws file cartName w =
           (Inl (DataFormatException ''Invalid file size (must be 8 or 16 KB)''), w)"
  using assms by (simp add: readCartridgeFile_def)

theorem readCartridgeFile_rejects_size_witness:
  "readCartridgeFile
     (\<lambda>buffer. Inr \<lparr>icbs = [], vcf_blocks = [], ampl_blocks = [], freq_blocks = [],
                            wave_blocks = []\<rparr>)
     (\<lambda>buffer sz. Inr \<lparr>icbs = [], vcf_blocks = [], ampl_blocks = [], freq_blocks = [],
                            wave_blocks = []\<rparr>)
     (\<lambda>k. None)
     \<lparr>f_exists = True, f_length = 8191, f_stream_ok = True, f_read = replicate 8191 0\<rparr>
     ''short.bin''
     \<lparr>m_instTree = [], m_instrumentStores = [], shown = [], buffers = 0, stores = 0,
            constructed = []\<rparr>
   = (Inl (DataFormatException ''Invalid file size (must be 8 or 16 KB)''),
      \<lparr>m_instTree = [], m_instrumentStores = [], shown = [], buffers = 0, stores = 0,
            constructed = []\<rparr>)"
  using readCartridgeFile_rejects_size [of
     "\<lparr>f_exists = True, f_length = 8191, f_stream_ok = True, f_read = replicate 8191 0\<rparr>"]
  by simp

text \<open>
  What the handler does achieve: on every failing path the buffer of the attempt and
  the store, if one was built, are deleted, and the collection is as before; and when
  the failure comes before the first node is appended, the tree is as before.
\<close>

lemma try_Mk1_state:
  assumes "try_Mk1 ctor buffer None w = (r, w')"
  shows "buffers w' = buffers w \<and> m_instTree w' = m_instTree w
       \<and> m_instrumentStores w' = m_instrumentStores w
       \<and> stores w' = stores w + (case r of Inr (Some s) \<Rightarrow> 1 | _ \<Rightarrow> 0)"
  using assms
  by (auto simp: try_Mk1_def new_Mk1Cartridge_def Let_def split: sum.splits if_splits)

lemma try_Dx10_state:
  assumes "try_Dx10 ctor buffer sz store w = (r, w')"
  shows "buffers w' = buffers w \<and> m_instTree w' = m_instTree w
       \<and> m_instrumentStores w' = m_instrumentStores w
       \<and> stores w' = stores w +
            (if store = None then (case r of Inr (Some s) \<Rightarrow> 1 | _ \<Rightarrow> 0) else 0)
       \<and> (store \<noteq> None \<longrightarrow> r = Inr store)"
  using assms
  by (auto simp: try_Dx10_def new_Dx10Cartridge_def Let_def split: sum.splits if_splits)

lemma readCartridgeFile_try_failure:
  assumes "readCartridgeFile_try mk1 dx10 throws file sz cartName w = (Inl (e, store), w')"
  shows "buffers w' = buffers w \<and> m_instrumentStores w' = m_instrumentStores w
       \<and> stores w' = stores w + (if store = None then 0 else 1)
       \<and> (store = None \<longrightarrow> m_instTree w' = m_instTree w)"
proof (cases "length (f_read file) \<noteq> sz")
  case True
  with assms show ?thesis by (simp add: readCartridgeFile_try_def)
next
  case False
  obtain r1 w1 where m: "try_Mk1 mk1 (f_read file) None w = (r1, w1)"
    by (cases "try_Mk1 mk1 (f_read file) None w")
  note s1 = try_Mk1_state [OF m]
  show ?thesis
  proof (cases r1)
    case (Inl e1)
    with assms False m s1 show ?thesis by (simp add: readCartridgeFile_try_def)
  next
    case (Inr st1)
    obtain r2 w2 where d: "try_Dx10 dx10 (f_read file) sz st1 w1 = (r2, w2)"
      by (cases "try_Dx10 dx10 (f_read file) sz st1 w1")
    note s2 = try_Dx10_state [OF d]
    show ?thesis
    proof (cases r2)
      case (Inl e2)
      with assms False m Inr d s1 s2 show ?thesis
        by (auto simp add: readCartridgeFile_try_def)
    next
      case r2: (Inr st2)
      show ?thesis
      proof (cases st2)
        case None
        with assms False m Inr d r2 s1 s2 show ?thesis
          by (auto simp add: readCartridgeFile_try_def split: option.splits)
      next
        case (Some s)
        obtain r3 w3 where g: "register_cartridge throws cartName s w2 = (r3, w3)"
          by (cases "register_cartridge throws cartName s w2")
        have f3: "buffers w3 = buffers w2" "stores w3 = stores w2"
          using register_cartridge_fields(1,2) [of throws cartName s w2] g by simp_all
        have st: "stores w2 = stores w + 1"
          using s1 s2 Inr r2 Some by (auto split: option.splits if_splits)
        show ?thesis
        proof (cases r3)
          case (Inl e3)
          have "m_instrumentStores w3 = m_instrumentStores w2"
            using register_cartridge_failed_collection [of throws cartName s w2 e3] g Inl
            by simp
          moreover have "buffers w2 = buffers w" "m_instrumentStores w2 = m_instrumentStores w"
            using s1 s2 by simp_all
          ultimately show ?thesis
            using assms False m \<open>r1 = Inr st1\<close> d r2 Some g Inl f3 st
            by (auto simp add: readCartridgeFile_try_def)
        next
          case (Inr u)
          with assms False m \<open>r1 = Inr st1\<close> d r2 Some g show ?thesis
            by (simp add: readCartridgeFile_try_def)
        qed
      qed
    qed
  qed
qed

lemma readCartridgeFile_failure_frees:
  assumes "fst (readCartridgeFile mk1 dx10 throws file cartName w) = Inl e"
  shows "buffers (snd (readCartridgeFile mk1 dx10 throws file cartName w)) = buffers w
       \<and> stores (snd (readCartridgeFile mk1 dx10 throws file cartName w)) = stores w
       \<and> m_instrumentStores (snd (readCartridgeFile mk1 dx10 throws file cartName w)) =
           m_instrumentStores w"
proof (cases "f_exists file \<and> (f_length file = 8192 \<or> f_length file = 16384)
              \<and> f_stream_ok file")
  case False
  then show ?thesis by (auto simp add: readCartridgeFile_def Let_def)
next
  case True
  let ?w1 = "w\<lparr>buffers := buffers w + 1\<rparr>"
  obtain r w' where t: "readCartridgeFile_try mk1 dx10 throws file (nat (f_length file))
                          cartName ?w1 = (r, w')"
    by (cases "readCartridgeFile_try mk1 dx10 throws file (nat (f_length file)) cartName ?w1")
  show ?thesis
  proof (cases r)
    case (Inr u)
    with assms True t show ?thesis by (auto simp add: readCartridgeFile_def Let_def)
  next
    case (Inl es)
    obtain e' store where es: "es = (e', store)" by (cases es)
    from readCartridgeFile_try_failure [OF t [unfolded Inl es]]
    have "buffers w' = buffers w + 1" "m_instrumentStores w' = m_instrumentStores w"
      "stores w' = stores w + (if store = None then 0 else 1)" by simp_all
    with True t Inl es show ?thesis
      by (auto simp add: readCartridgeFile_def Let_def readCartridgeFile_catch_def)
  qed
qed

lemma register_cartridge_throws_0:
  "throws 0 = Some e \<Longrightarrow> register_cartridge throws n s w = (Inl e, w)"
  by (simp add: register_cartridge_def)

lemma readCartridgeFile_failure_before_tree:
  assumes "fst (readCartridgeFile mk1 dx10 throws file cartName w) = Inl e"
    and "throws 0 \<noteq> None"
  shows "m_instTree (snd (readCartridgeFile mk1 dx10 throws file cartName w)) = m_instTree w"
proof -
  from assms(2) obtain e0 where "throws 0 = Some e0" by auto
  then have reg: "register_cartridge throws n s v = (Inl e0, v)" for n s v
    by (rule register_cartridge_throws_0)
  show ?thesis
    using assms(1)
    by (auto simp add: readCartridgeFile_defs Let_def reg
        split: if_splits sum.splits option.splits)
qed


subsection \<open>Creating the configured devices\<close>

lemmas createDevice_defs =
  createDevice_def createDevice_try_def createDevice_in_port_def createDevice_out_port_def
  createDevice_channel_def createDevice_type_def createDevice_catch_def

lemma register_device_tree:
  "m_instTree (register_device n is w) =
     m_instTree w @
     \<lparr>parent = Devices, label = n, helper_store = is, helper_icb = 0\<rparr> #
     map (\<lambda>i. \<lparr>parent = Item (length (m_instTree w)), label = instName i,
                helper_store = is, helper_icb = fst i\<rparr>)
       (case m_store is of None \<Rightarrow> [] | Some s \<Rightarrow> icbs s)"
  by (simp add: register_device_def Let_def AppendItem_def insert_store_fields
      add_instruments_tree)

lemma register_device_map:
  "m_instrumentStores (register_device n is w) =
     (case map_of (m_instrumentStores w) n of
        None \<Rightarrow> m_instrumentStores w @ [(n, is)]
      | Some existing \<Rightarrow> m_instrumentStores w)"
  by (simp add: register_device_def Let_def AppendItem_def insert_store_map
      add_instruments_fields split: option.splits)

text \<open>
  C8. When the MIDI objects and the device store can be created and both ports are
  found, the setup of a configured device throws a ConfigurationException if the MIDI
  channel is missing or outside 1 to 16 ("Invalid value for MIDI channel"), and
  otherwise if the device type is missing or outside 1 to 2 ("Invalid value for device
  type"). \<^verbatim>\<open>createDevices\<close> catches it: it deletes the store and the buffer it had made
  for the device, leaves the tree and the collection as they were and shows the reason.
  A device store stays live, with the configured channel and type, and is put in the
  tree and the collection only when both values are in range.
\<close>

theorem createDevice_checks_channel_and_type:
  assumes "midi_available env" and "device_ctor env = Inr s"
    and "find_port (InPort cfg) (in_ports env) 0 = Some i"
    and "find_port (OutPort cfg) (out_ports env) 0 = Some j"
  shows "fst (createDevice_try env name cfg is w) =
           (if \<not> channel_ok cfg
              then Inl (ConfigurationException ''Invalid value for MIDI channel'')
            else if \<not> type_ok cfg
              then Inl (ConfigurationException ''Invalid value for device type'')
            else Inr ())
         \<and> (let r = createDevice env name cfg uninit w in
             if channel_ok cfg \<and> type_ok cfg
             then fst r = Inr () \<and> stores (snd r) = stores w + 1
                  \<and> buffers (snd r) = buffers w + 1 \<and> shown (snd r) = shown w
                  \<and> (\<exists>dev. m_store dev = Some s
                        \<and> Some (uint (m_channel dev)) = Channel cfg
                        \<and> Some (uint (m_type dev)) = Type cfg
                        \<and> m_instTree (snd r) = m_instTree (register_device name dev w)
                        \<and> m_instrumentStores (snd r) =
                            m_instrumentStores (register_device name dev w))
             else fst r = Inr () \<and> stores (snd r) = stores w \<and> buffers (snd r) = buffers w
                  \<and> m_instTree (snd r) = m_instTree w
                  \<and> m_instrumentStores (snd r) = m_instrumentStores w
                  \<and> shown (snd r) = shown w @
                       [''Device '' @ [CHR 0x27] @ name @ [CHR 0x27]
                          @ '' could not be created, reason: ''
                          @ (if \<not> channel_ok cfg then ''Invalid value for MIDI channel''
                             else ''Invalid value for device type'')])"
proof -
  have try_result: "fst (createDevice_try env name cfg is0 w) =
           (if \<not> channel_ok cfg
              then Inl (ConfigurationException ''Invalid value for MIDI channel'')
            else if \<not> type_ok cfg
              then Inl (ConfigurationException ''Invalid value for device type'')
            else Inr ())" for is0
    using assms
    by (auto simp add: createDevice_defs channel_ok_def type_ok_def Let_def
        split: option.splits)
  have rejected: "fst r = Inr () \<and> stores (snd r) = stores w \<and> buffers (snd r) = buffers w
                  \<and> m_instTree (snd r) = m_instTree w
                  \<and> m_instrumentStores (snd r) = m_instrumentStores w
                  \<and> shown (snd r) = shown w @
                       [''Device '' @ [CHR 0x27] @ name @ [CHR 0x27]
                          @ '' could not be created, reason: ''
                          @ (if \<not> channel_ok cfg then ''Invalid value for MIDI channel''
                             else ''Invalid value for device type'')]"
    if "\<not> (channel_ok cfg \<and> type_ok cfg)" and "r = createDevice env name cfg uninit w" for r
    using assms that
    by (auto simp add: createDevice_defs channel_ok_def type_ok_def Let_def
        split: option.splits)
  have accepted: "fst r = Inr () \<and> stores (snd r) = stores w + 1
                  \<and> buffers (snd r) = buffers w + 1 \<and> shown (snd r) = shown w
                  \<and> (\<exists>dev. m_store dev = Some s
                        \<and> Some (uint (m_channel dev)) = Channel cfg
                        \<and> Some (uint (m_type dev)) = Type cfg
                        \<and> m_instTree (snd r) = m_instTree (register_device name dev w)
                        \<and> m_instrumentStores (snd r) =
                            m_instrumentStores (register_device name dev w))"
    if ok: "channel_ok cfg \<and> type_ok cfg" and r: "r = createDevice env name cfg uninit w" for r
  proof -
    from ok obtain c t where c: "Channel cfg = Some c" "1 \<le> c" "c \<le> 16"
      and t: "Type cfg = Some t" "1 \<le> t" "t \<le> 2"
      by (auto simp: channel_ok_def type_ok_def split: option.splits)
    define dev where "dev = uninit
       \<lparr>m_store := Some s,
         m_midiIn := Some \<lparr>opened = Some (i, ''DMS-Toolbox:'' @ name)\<rparr>,
         m_midiOut := Some \<lparr>opened = Some (j, ''DMS-Toolbox:'' @ name)\<rparr>,
         m_channel := of_int c, m_type := of_int t\<rparr>"
    have r': "r = (Inr (), register_device name dev
                     (w\<lparr>buffers := buffers w + 1, stores := stores w + 1\<rparr>))"
      using assms c t r by (simp add: createDevice_defs Let_def dev_def)
    have uc: "uint (of_int c :: 8 word) = c"
      using c by (simp add: uint_word_of_int)
    have ut: "uint (of_int t :: 8 word) = t"
      using t by (simp add: uint_word_of_int)
    have "m_store dev = Some s \<and> Some (uint (m_channel dev)) = Channel cfg
            \<and> Some (uint (m_type dev)) = Type cfg
            \<and> m_instTree (snd r) = m_instTree (register_device name dev w)
            \<and> m_instrumentStores (snd r) = m_instrumentStores (register_device name dev w)"
      by (simp add: r' dev_def c t uc ut register_device_tree register_device_map
          split: option.splits)
    then show ?thesis
      by (auto simp: r' register_device_fields)
  qed
  show ?thesis
    using try_result [of "is"] rejected accepted by (simp add: Let_def)
qed

theorem createDevice_checks_channel_and_type_witness:
  "fst (createDevice_try
          \<lparr>midi_available = True, in_ports = [''Through'', ''DX10 in''],
            out_ports = [''DX10 out''],
            device_ctor = Inr \<lparr>icbs = [], vcf_blocks = [], ampl_blocks = [], freq_blocks = [],
                                wave_blocks = []\<rparr>\<rparr>
          ''organ''
          \<lparr>InPort = ''DX10 in'', OutPort = ''DX10 out'', Channel = Some 17, Type = Some 1\<rparr>
          \<lparr>m_store = None, m_midiIn = None, m_midiOut = None, m_channel = 0, m_type = 0\<rparr>
          \<lparr>m_instTree = [], m_instrumentStores = [], shown = [], buffers = 0, stores = 0,
            constructed = []\<rparr>)
     = Inl (ConfigurationException ''Invalid value for MIDI channel'')
   \<and> stores (snd (createDevice
          \<lparr>midi_available = True, in_ports = [''Through'', ''DX10 in''],
            out_ports = [''DX10 out''],
            device_ctor = Inr \<lparr>icbs = [], vcf_blocks = [], ampl_blocks = [], freq_blocks = [],
                                wave_blocks = []\<rparr>\<rparr>
          ''organ''
          \<lparr>InPort = ''DX10 in'', OutPort = ''DX10 out'', Channel = Some 17, Type = Some 1\<rparr>
          \<lparr>m_store = None, m_midiIn = None, m_midiOut = None, m_channel = 9, m_type = 9\<rparr>
          \<lparr>m_instTree = [], m_instrumentStores = [], shown = [], buffers = 0, stores = 0,
            constructed = []\<rparr>)) = 0"
  using createDevice_checks_channel_and_type [of
          "\<lparr>midi_available = True, in_ports = [''Through'', ''DX10 in''],
            out_ports = [''DX10 out''],
            device_ctor = Inr \<lparr>icbs = [], vcf_blocks = [], ampl_blocks = [], freq_blocks = [],
                                wave_blocks = []\<rparr>\<rparr>"
          "\<lparr>icbs = [], vcf_blocks = [], ampl_blocks = [], freq_blocks = [], wave_blocks = []\<rparr>"
          "\<lparr>InPort = ''DX10 in'', OutPort = ''DX10 out'', Channel = Some 17, Type = Some 1\<rparr>"
          1 0 "''organ''"
          "\<lparr>m_store = None, m_midiIn = None, m_midiOut = None, m_channel = 0, m_type = 0\<rparr>"
          "\<lparr>m_instTree = [], m_instrumentStores = [], shown = [], buffers = 0, stores = 0,
            constructed = []\<rparr>"
          "\<lparr>m_store = None, m_midiIn = None, m_midiOut = None, m_channel = 9, m_type = 9\<rparr>"]
  by (simp add: channel_ok_def type_ok_def Let_def)

subsection \<open>Reading a store from a device\<close>

lemma map_of_insort_key:
  "k \<notin> fst ` set xs \<Longrightarrow> map_of (insort_key fst (k, v) xs) = (map_of xs)(k \<mapsto> v)"
  by (induction xs) (auto simp: fun_upd_twist)

lemma map_of_filter_other:
  "map_of (filter (\<lambda>p. fst p \<noteq> k) xs) a = (if a = k then None else map_of xs a)"
  by (induction xs) auto

lemma map_of_store_put: "map_of (store_put k v xs) = (map_of xs)(k \<mapsto> v)"
proof -
  have "k \<notin> fst ` set (filter (\<lambda>p. fst p \<noteq> k) xs)" by auto
  then have "map_of (store_put k v xs) = (map_of (filter (\<lambda>p. fst p \<noteq> k) xs))(k \<mapsto> v)"
    unfolding store_put_def by (rule map_of_insort_key)
  also have "\<dots> = (map_of xs)(k \<mapsto> v)"
    by (rule ext) (simp add: map_of_filter_other)
  finally show ?thesis .
qed

lemma has_block_apply_frame:
  "has_block (apply_frame p f st) kind a =
     (has_block st kind a \<or> (fr_tag f = kind \<and> fr_addr f = a))"
  by (cases kind; cases "fr_tag f")
     (auto simp: has_block_def apply_frame_def getVcf_def getAmpl_def getFreq_def getWave_def
        map_of_store_put)

lemma has_block_fold_apply_frame:
  "has_block (fold (apply_frame p) fs st) kind a =
     (has_block st kind a \<or> (kind, a) \<in> set (map (\<lambda>f. (fr_tag f, fr_addr f)) fs))"
  by (induction fs arbitrary: st) (auto simp: has_block_apply_frame)


lemma receive_cancelled:
  assumes "1 \<le> k" and "k \<le> length us"
    and "\<forall>f \<in> set (frames_of (take k us)). checksum_ok p f"
    and "\<forall>j. 1 \<le> j \<and> j < k \<longrightarrow>
           cb (units + j) (unitsTotal p)
           \<and> received + length (frames_of (take j us)) < expected
           \<and> units + j < unitsTotal p"
    and "\<not> cb (units + k) (unitsTotal p)"
  shows "receive p cb us expected received units st =
           (Inr Cancelled, fold (apply_frame p) (frames_of (take k us)) st)"
  using assms
proof (induction us arbitrary: k received units st)
  case Nil
  then show ?case by simp
next
  case (Cons a us)
  show ?case
  proof (cases "k = 1")
    case True
    with Cons.prems show ?thesis by (cases a) (simp_all add: Let_def)
  next
    case False
    with Cons.prems have k2: "2 \<le> k" by simp
    then obtain k' where k': "k = Suc k'" "1 \<le> k'" by (cases k) auto
    have first: "cb (units + 1) (unitsTotal p)"
      "received + length (frames_of (take 1 (a # us))) < expected"
      "units + 1 < unitsTotal p"
      using Cons.prems(4) k2 by (auto dest: spec [of _ 1])
    have len: "k' \<le> length us" using Cons.prems(2) k' by simp
    have nc: "\<not> cb ((units + 1) + k') (unitsTotal p)" using Cons.prems(5) k' by simp
    have later: "cb ((units + 1) + j) (unitsTotal p)
           \<and> received + length (frames_of (take (Suc j) (a # us))) < expected
           \<and> (units + 1) + j < unitsTotal p" if "1 \<le> j \<and> j < k'" for j
    proof -
      from that have "1 \<le> Suc j \<and> Suc j < k" using k' by simp
      with Cons.prems(4) have "cb (units + Suc j) (unitsTotal p)
           \<and> received + length (frames_of (take (Suc j) (a # us))) < expected
           \<and> units + Suc j < unitsTotal p" by blast
      then show ?thesis by simp
    qed
    show ?thesis
    proof (cases a)
      case Pending
      have ok: "\<forall>f \<in> set (frames_of (take k' us)). checksum_ok p f"
        using Cons.prems(3) k' Pending by simp
      have mid: "\<forall>j. 1 \<le> j \<and> j < k' \<longrightarrow>
           cb ((units + 1) + j) (unitsTotal p)
           \<and> received + length (frames_of (take j us)) < expected
           \<and> (units + 1) + j < unitsTotal p"
        using later Pending by simp
      from Cons.IH [OF k'(2) len ok mid nc] first Pending k' show ?thesis by simp
    next
      case (Framed f)
      have okf: "checksum_ok p f" using Cons.prems(3) k' Framed by simp
      have ok: "\<forall>f \<in> set (frames_of (take k' us)). checksum_ok p f"
        using Cons.prems(3) k' Framed by simp
      have mid: "\<forall>j. 1 \<le> j \<and> j < k' \<longrightarrow>
           cb ((units + 1) + j) (unitsTotal p)
           \<and> (received + 1) + length (frames_of (take j us)) < expected
           \<and> (units + 1) + j < unitsTotal p"
        using later Framed by simp
      have r1: "\<not> expected \<le> received + 1" using first(2) Framed by simp
      from Cons.IH [OF k'(2) len ok mid nc, of "apply_frame p f st"]
        first r1 okf Framed k' show ?thesis by (simp add: Let_def)
    qed
  qed
qed

text \<open>
  C7. If the progress callback answers false after \<open>k\<close> units of a device read that
  was still under way (it answered true after each earlier unit, and up to then no
  checksum failed, not all expected blocks had arrived and the budget was not used up),
  the transaction ends in the state Cancelled, without an error. The store is then the
  initial store with the frames completed within those \<open>k\<close> units applied, each as a
  whole: a block is set exactly if it was set before or a frame for it was received
  before the cancellation.
\<close>

theorem readFromDevice_cancelled_after_k_units:
  assumes "1 \<le> k" and "k \<le> length inbound"
    and "\<forall>f \<in> set (frames_of (take k inbound)). checksum_ok p f"
    and "\<forall>j. 1 \<le> j \<and> j < k \<longrightarrow>
           cb j (unitsTotal p)
           \<and> length (frames_of (take j inbound)) < expectedCount p
           \<and> j < unitsTotal p"
    and "\<not> cb k (unitsTotal p)"
  shows "fst (readFromDevice p cb inbound st) = Inr Cancelled
       \<and> snd (readFromDevice p cb inbound st) =
           fold (apply_frame p) (frames_of (take k inbound)) st
       \<and> (\<forall>kind a. has_block (snd (readFromDevice p cb inbound st)) kind a =
             (has_block st kind a
              \<or> (kind, a) \<in> set (map (\<lambda>f. (fr_tag f, fr_addr f))
                                   (frames_of (take k inbound)))))"
proof -
  have "receive p cb inbound (expectedCount p) 0 0 st =
          (Inr Cancelled, fold (apply_frame p) (frames_of (take k inbound)) st)"
    using assms by (intro receive_cancelled) simp_all
  then show ?thesis
    by (simp add: readFromDevice_def has_block_fold_apply_frame)
qed

theorem readFromDevice_cancelled_after_k_units_witness:
  "readFromDevice
     \<lparr>cksum = (\<lambda>b. sum_list b),
       icb_of = (\<lambda>b. \<lparr>getName = ''ICB'', getAmplBlock = 0, getFreqBlock = 0, getWaveBlock = 0\<rparr>),
       expectedCount = 71, unitsTotal = 6180\<rparr>
     (\<lambda>completed total. completed < 3)
     [Framed \<lparr>fr_tag = VCF, fr_addr = 65, fr_payload = [1, 2], fr_checksum = 3\<rparr>,
      Pending,
      Framed \<lparr>fr_tag = AMPL, fr_addr = 66, fr_payload = [4], fr_checksum = 4\<rparr>,
      Framed \<lparr>fr_tag = WAVE, fr_addr = 67, fr_payload = [5], fr_checksum = 5\<rparr>]
     \<lparr>icbs = [], vcf_blocks = [], ampl_blocks = [], freq_blocks = [], wave_blocks = []\<rparr>
   = (Inr Cancelled,
      \<lparr>icbs = [], vcf_blocks = [(65, [1, 2])], ampl_blocks = [(66, [4])], freq_blocks = [],
        wave_blocks = []\<rparr>)"
proof -
  let ?p = "\<lparr>cksum = (\<lambda>b. sum_list b),
       icb_of = (\<lambda>b. \<lparr>getName = ''ICB'', getAmplBlock = 0, getFreqBlock = 0, getWaveBlock = 0\<rparr>),
       expectedCount = 71, unitsTotal = 6180\<rparr>"
  let ?cb = "\<lambda>(completed :: nat) (total :: nat). completed < 3"
  let ?inb = "[Framed \<lparr>fr_tag = VCF, fr_addr = 65, fr_payload = [1, 2], fr_checksum = 3\<rparr>,
      Pending,
      Framed \<lparr>fr_tag = AMPL, fr_addr = 66, fr_payload = [4], fr_checksum = 4\<rparr>,
      Framed \<lparr>fr_tag = WAVE, fr_addr = 67, fr_payload = [5], fr_checksum = 5\<rparr>]"
  have k: "(1::nat) \<le> 3" "3 \<le> length ?inb" by simp_all
  have sums: "\<forall>f \<in> set (frames_of (take 3 ?inb)). checksum_ok ?p f"
    by (simp add: checksum_ok_def)
  have before: "\<forall>j. 1 \<le> j \<and> j < 3 \<longrightarrow>
           ?cb j (unitsTotal ?p)
           \<and> length (frames_of (take j ?inb)) < expectedCount ?p
           \<and> j < unitsTotal ?p"
  proof (intro allI impI)
    fix j :: nat assume "1 \<le> j \<and> j < 3"
    then have "j = 1 \<or> j = 2" by arith
    then show "?cb j (unitsTotal ?p)
           \<and> length (frames_of (take j ?inb)) < expectedCount ?p
           \<and> j < unitsTotal ?p" by auto
  qed
  have stop: "\<not> ?cb 3 (unitsTotal ?p)" by simp
  from readFromDevice_cancelled_after_k_units [OF k sums before stop, of
      "\<lparr>icbs = [], vcf_blocks = [], ampl_blocks = [], freq_blocks = [], wave_blocks = []\<rparr>"]
  show ?thesis
    by (simp add: prod_eq_iff apply_frame_def store_put_def)
qed

end
